theory Spec2Isabelle
  imports Main "HOL-Library.Sublist"
begin

section \<open>StatEase front end: test registry, selection state, result rendering, upload\<close>

subsection \<open>types/analysis.ts\<close>

text \<open>
  \<^verbatim>\<open>StatisticalTest\<close> and \<^verbatim>\<open>VariableSelection\<close> as records. The field \<^verbatim>\<open>id\<close> is
  \<open>test_id\<close> here (\<open>id\<close> is the identity function of HOL); the fields of a selection carry
  the suffix \<open>_sel\<close> where the component state has a field of the same name. The arity
  \<^verbatim>\<open>requirements.variables\<close> is a JavaScript number holding an integer, \<open>-1\<close> meaning
  "multiple variables". \<^verbatim>\<open>category\<close> is kept as the string literal the source writes; the
  union type of \<^verbatim>\<open>analysis.ts\<close> is the list \<open>categories\<close>.
\<close>

record requirements =
  variables :: int
  variableTypes :: "string list"
  dataRequirements :: "string list"

record StatisticalTest =
  test_id :: string
  name :: string
  description :: string
  category :: string
  requirements :: requirements

record VariableSelection =
  testId :: string
  variables_sel :: "string list"
  groupVariable_sel :: "string option"


subsection \<open>AnalysisSelection: the registry\<close>

definition statisticalTests :: "StatisticalTest list" where
  "statisticalTests = [
    \<lparr>test_id = ''independent_t'', name = ''Independent t-test'',
     description = ''Compare means between two independent groups'',
     category = ''comparison'',
     requirements = \<lparr>variables = 2, variableTypes = [''numeric'', ''categorical''],
       dataRequirements = [''Normality'', ''Equal variances'']\<rparr>\<rparr>,
    \<lparr>test_id = ''paired_t'', name = ''Paired t-test'',
     description = ''Compare means from the same group at different times'',
     category = ''comparison'',
     requirements = \<lparr>variables = 2, variableTypes = [''numeric'', ''numeric''],
       dataRequirements = [''Normality'', ''Paired measurements'']\<rparr>\<rparr>,
    \<lparr>test_id = ''anova'', name = ''One-way ANOVA'',
     description = ''Compare means between three or more groups'',
     category = ''comparison'',
     requirements = \<lparr>variables = 2, variableTypes = [''numeric'', ''categorical''],
       dataRequirements = [''Normality'', ''Equal variances'', ''Independence'']\<rparr>\<rparr>,
    \<lparr>test_id = ''pearson'', name = ''Pearson Correlation'',
     description = ''Measure linear relationship between two continuous variables'',
     category = ''correlation'',
     requirements = \<lparr>variables = 2, variableTypes = [''numeric'', ''numeric''],
       dataRequirements = [''Linear relationship'', ''Normality'']\<rparr>\<rparr>,
    \<lparr>test_id = ''spearman'', name = ''Spearman Correlation'',
     description = ''Measure monotonic relationship between two variables'',
     category = ''correlation'',
     requirements = \<lparr>variables = 2, variableTypes = [''numeric'', ''numeric''],
       dataRequirements = [''Monotonic relationship'']\<rparr>\<rparr>,
    \<lparr>test_id = ''chi_square'', name = ''Chi-square Test'',
     description = ''Test association between categorical variables'',
     category = ''nonparametric'',
     requirements = \<lparr>variables = 2, variableTypes = [''categorical'', ''categorical''],
       dataRequirements = [''Expected frequencies >5'']\<rparr>\<rparr>,
    \<lparr>test_id = ''linear_regression'', name = ''Linear Regression'',
     description = ''Predict continuous outcome based on predictor variables'',
     category = ''regression'',
     requirements = \<lparr>variables = - 1, variableTypes = [''numeric'', ''numeric''],
       dataRequirements = [''Linearity'', ''Independence'', ''Homoscedasticity'', ''Normality'']\<rparr>\<rparr>,
    \<lparr>test_id = ''mann_whitney'', name = ''Mann-Whitney U Test'',
     description = ''Non-parametric alternative to independent t-test'',
     category = ''nonparametric'',
     requirements = \<lparr>variables = 2, variableTypes = [''numeric'', ''categorical''],
       dataRequirements = [''Ordinal data or non-normal distributions'']\<rparr>\<rparr>,
    \<lparr>test_id = ''shapiro_wilk'', name = ''Shapiro-Wilk Test'',
     description = ''Test for normality of data distribution'',
     category = ''normality'',
     requirements = \<lparr>variables = 1, variableTypes = [''numeric''],
       dataRequirements = [''Continuous data'']\<rparr>\<rparr>,
    \<lparr>test_id = ''levene'', name = ''Levene's Test'',
     description = ''Test for equality of variances between groups'',
     category = ''normality'',
     requirements = \<lparr>variables = 2, variableTypes = [''numeric'', ''categorical''],
       dataRequirements = [''Continuous dependent variable'']\<rparr>\<rparr>
  ]"

subsection \<open>AnalysisSelection: component state and handlers\<close>

text \<open>
  The three \<^verbatim>\<open>useState\<close> cells of the component. A handler reads the values of the current
  render and sets new ones; one event is handled per render, so a handler is a function
  from the state before to the state after. \<^verbatim>\<open>columnTypes\<close> is the prop, an object from
  column name to type name, modelled by its \<^verbatim>\<open>Object.entries\<close>.
\<close>

record selection_state =
  selectedTest :: string
  selectedVariables :: "string list"
  groupVariable :: string

type_synonym column_types = "(string \<times> string) list"

definition initial_state :: selection_state where
  "initial_state = \<lparr>selectedTest = [], selectedVariables = [], groupVariable = []\<rparr>"

definition numericColumns :: "column_types \<Rightarrow> string list" where
  "numericColumns columnTypes = map fst (filter (\<lambda>(_, ty). ty = ''numeric'') columnTypes)"

definition categoricalColumns :: "column_types \<Rightarrow> string list" where
  "categoricalColumns columnTypes = map fst (filter (\<lambda>(_, ty). ty = ''categorical'') columnTypes)"

definition allColumns :: "column_types \<Rightarrow> string list" where
  "allColumns columnTypes = map fst columnTypes"

definition handleTestSelect :: "string \<Rightarrow> selection_state \<Rightarrow> selection_state" where
  "handleTestSelect tid s =
     s\<lparr>selectedTest := tid, selectedVariables := [], groupVariable := []\<rparr>"

text \<open>
  \<^verbatim>\<open>selectedVariables.length < (variables === -1 ? Infinity : variables)\<close>: below
  \<^verbatim>\<open>Infinity\<close> always, below the integer otherwise.
\<close>

definition belowLimit :: "nat \<Rightarrow> int \<Rightarrow> bool" where
  "belowLimit len vars = (if vars = - 1 then True else int len < vars)"

definition handleVariableSelect :: "string \<Rightarrow> selection_state \<Rightarrow> selection_state" where
  "handleVariableSelect variable s =
     (case find (\<lambda>t. test_id t = selectedTest s) statisticalTests of
        None \<Rightarrow> s
      | Some test \<Rightarrow>
          if variables (requirements test) = 1 then s\<lparr>selectedVariables := [variable]\<rparr>
          else if variable \<in> set (selectedVariables s)
            then s\<lparr>selectedVariables := filter (\<lambda>v. v \<noteq> variable) (selectedVariables s)\<rparr>
          else if belowLimit (length (selectedVariables s)) (variables (requirements test))
            then s\<lparr>selectedVariables := selectedVariables s @ [variable]\<rparr>
          else s)"

text \<open>
  \<^verbatim>\<open>handleRunTest\<close>: \<open>None\<close> is the early return, \<open>Some selection\<close> the argument of the one
  call of \<^verbatim>\<open>onTestSelect\<close>. The empty string is falsy, so \<^verbatim>\<open>groupVariable || undefined\<close>
  is \<open>None\<close> for it.
\<close>

definition handleRunTest :: "selection_state \<Rightarrow> VariableSelection option" where
  "handleRunTest s =
     (if selectedTest s = [] \<or> length (selectedVariables s) = 0 then None
      else Some \<lparr>testId = selectedTest s, variables_sel = selectedVariables s,
                  groupVariable_sel = (if groupVariable s = [] then None else Some (groupVariable s))\<rparr>)"

definition getAvailableTests :: "column_types \<Rightarrow> StatisticalTest list" where
  "getAvailableTests columnTypes =
     filter (\<lambda>test.
        let hasNumeric = length (numericColumns columnTypes) > 0;
            hasCategorical = length (categoricalColumns columnTypes) > 0
        in if ''numeric'' \<in> set (variableTypes (requirements test)) \<and> \<not> hasNumeric then False
           else if ''categorical'' \<in> set (variableTypes (requirements test)) \<and> \<not> hasCategorical then False
           else True)
       statisticalTests"

subsection \<open>AnalysisSelection: events\<close>

text \<open>
  The events of the component: a click on a test card, a change of a variable checkbox, a
  click on the run button. \<open>step\<close> runs the handler of an event and gives the selection
  handed to \<^verbatim>\<open>onTestSelect\<close>, if any; \<open>run_events\<close> handles a sequence of events and
  collects the emitted selections in order.
\<close>

datatype event = TestSelect string | VariableSelect string | RunTest

fun step :: "event \<Rightarrow> selection_state \<Rightarrow> selection_state \<times> VariableSelection option" where
  "step (TestSelect tid) s = (handleTestSelect tid s, None)"
| "step (VariableSelect v) s = (handleVariableSelect v s, None)"
| "step RunTest s = (s, handleRunTest s)"

fun run_events :: "event list \<Rightarrow> selection_state \<Rightarrow> selection_state \<times> VariableSelection list" where
  "run_events [] s = (s, [])"
| "run_events (e # es) s =
     (case step e s of (s', out) \<Rightarrow>
        (case run_events es s' of (s'', outs) \<Rightarrow>
           (s'', (case out of None \<Rightarrow> [] | Some sel \<Rightarrow> [sel]) @ outs)))"

text \<open>
  What the rendered page offers. A test card exists for each entry of
  \<^verbatim>\<open>availableTests\<close> and calls \<^verbatim>\<open>handleTestSelect(test.id)\<close>. The checkboxes exist when
  \<^verbatim>\<open>selectedTest\<close> is truthy, one per column, and a checkbox is disabled when its column
  is not selected and the selection is full; with no test found the limit is
  \<^verbatim>\<open>undefined || 0\<close>, that is 0. The run button exists when a test is selected and
  \<^verbatim>\<open>selectedVariables.length > 0\<close>.
\<close>

definition checkboxDisabled :: "selection_state \<Rightarrow> string \<Rightarrow> bool" where
  "checkboxDisabled s column =
     (column \<notin> set (selectedVariables s) \<and>
      (case find (\<lambda>t. test_id t = selectedTest s) statisticalTests of
         None \<Rightarrow> True
       | Some test \<Rightarrow> \<not> belowLimit (length (selectedVariables s)) (variables (requirements test))))"

fun offered :: "column_types \<Rightarrow> selection_state \<Rightarrow> event \<Rightarrow> bool" where
  "offered ct s (TestSelect tid) = (tid \<in> set (map test_id (getAvailableTests ct)))"
| "offered ct s (VariableSelect v) =
     (selectedTest s \<noteq> [] \<and> v \<in> set (allColumns ct) \<and> \<not> checkboxDisabled s v)"
| "offered ct s RunTest = (selectedTest s \<noteq> [] \<and> length (selectedVariables s) > 0)"

fun ui_run :: "column_types \<Rightarrow> event list \<Rightarrow> selection_state
    \<Rightarrow> (selection_state \<times> VariableSelection list) option" where
  "ui_run ct [] s = Some (s, [])"
| "ui_run ct (e # es) s =
     (if offered ct s e then
        (case step e s of (s', out) \<Rightarrow>
           (case ui_run ct es s' of
              None \<Rightarrow> None
            | Some (s'', outs) \<Rightarrow> Some (s'', (case out of None \<Rightarrow> [] | Some sel \<Rightarrow> [sel]) @ outs)))
      else None)"

subsection \<open>AnalysisSelection: the registry as a stored array\<close>




definition getAvailableTests_in :: "StatisticalTest list \<Rightarrow> column_types \<Rightarrow> StatisticalTest list" where
  "getAvailableTests_in tests columnTypes =
     filter (\<lambda>test.
        let hasNumeric = length (numericColumns columnTypes) > 0;
            hasCategorical = length (categoricalColumns columnTypes) > 0
        in if ''numeric'' \<in> set (variableTypes (requirements test)) \<and> \<not> hasNumeric then False
           else if ''categorical'' \<in> set (variableTypes (requirements test)) \<and> \<not> hasCategorical then False
           else True)
       tests"

definition checkboxDisabled_in :: "StatisticalTest list \<Rightarrow> selection_state \<Rightarrow> string \<Rightarrow> bool" where
  "checkboxDisabled_in tests s column =
     (column \<notin> set (selectedVariables s) \<and>
      (case find (\<lambda>t. test_id t = selectedTest s) tests of
         None \<Rightarrow> True
       | Some test \<Rightarrow> \<not> belowLimit (length (selectedVariables s)) (variables (requirements test))))"






subsection \<open>AnalysisSelection: properties of states and selections\<close>

text \<open>
  The selection respects the arity of the selected test: nothing is selected while no
  registered test is, and at most as many variables as a fixed arity allows.
\<close>

definition within_arity :: "selection_state \<Rightarrow> bool" where
  "within_arity s =
     (case find (\<lambda>t. test_id t = selectedTest s) statisticalTests of
        None \<Rightarrow> selectedVariables s = []
      | Some t \<Rightarrow> variables (requirements t) = - 1 \<or>
                  int (length (selectedVariables s)) \<le> variables (requirements t))"

text \<open>
  The count of a selection as the specification words it: equal to the arity of its test
  when that is a fixed integer, at least 2 when it is unbounded.
\<close>

definition countMatchesArity :: "VariableSelection \<Rightarrow> bool" where
  "countMatchesArity sel =
     (case find (\<lambda>t. test_id t = testId sel) statisticalTests of
        None \<Rightarrow> False
      | Some t \<Rightarrow>
          if variables (requirements t) = - 1 then 2 \<le> length (variables_sel sel)
          else int (length (variables_sel sel)) = variables (requirements t))"

text \<open>
  The count of a selection as the handlers keep it: the test is registered, at least one
  variable, and no more than a fixed arity.
\<close>

definition countWithinArity :: "VariableSelection \<Rightarrow> bool" where
  "countWithinArity sel =
     (case find (\<lambda>t. test_id t = testId sel) statisticalTests of
        None \<Rightarrow> False
      | Some t \<Rightarrow>
          1 \<le> length (variables_sel sel) \<and>
          (variables (requirements t) = - 1 \<or>
           int (length (variables_sel sel)) \<le> variables (requirements t)))"

definition registeredOrEmpty :: "string \<Rightarrow> bool" where
  "registeredOrEmpty tid = (tid = [] \<or> tid \<in> set (map test_id statisticalTests))"

text \<open>
  Availability of a test as the specification words it: a test that asks for a numeric
  variable needs a numeric column, one that asks for a categorical variable needs a
  categorical column.
\<close>

definition availableSpec :: "column_types \<Rightarrow> StatisticalTest \<Rightarrow> bool" where
  "availableSpec columnTypes t =
     ((''numeric'' \<in> set (variableTypes (requirements t))
         \<longrightarrow> (\<exists>c \<in> set columnTypes. snd c = ''numeric'')) \<and>
      (''categorical'' \<in> set (variableTypes (requirements t))
         \<longrightarrow> (\<exists>c \<in> set columnTypes. snd c = ''categorical'')))"

subsection \<open>AnalysisResults: the switch of renderResults\<close>

text \<open>
  \<^verbatim>\<open>renderResults\<close> switches on \<^verbatim>\<open>results.test\<close>, the tag of the result object. Each
  constructor of \<open>rendering\<close> is one \<^verbatim>\<open>return\<close> of the switch; Pearson and Spearman share
  one. \<open>UnknownTestType\<close> is the \<^verbatim>\<open>default\<close> branch.
\<close>

datatype rendering =
  IndependentT | PairedT | OneWayAnova | Correlation | ChiSquare | ShapiroWilk | Levene
  | UnknownTestType

definition renderResults :: "string \<Rightarrow> rendering" where
  "renderResults test =
     (if test = ''independent_t_test'' then IndependentT
      else if test = ''paired_t_test'' then PairedT
      else if test = ''one_way_anova'' then OneWayAnova
      else if test = ''pearson_correlation'' \<or> test = ''spearman_correlation'' then Correlation
      else if test = ''chi_square_test'' then ChiSquare
      else if test = ''shapiro_wilk_test'' then ShapiroWilk
      else if test = ''levene_test'' then Levene
      else UnknownTestType)"

text \<open>The \<^verbatim>\<open>case\<close> labels of the switch.\<close>

definition renderedTags :: "string list" where
  "renderedTags = [''independent_t_test'', ''paired_t_test'', ''one_way_anova'',
     ''pearson_correlation'', ''spearman_correlation'', ''chi_square_test'',
     ''shapiro_wilk_test'', ''levene_test'']"

subsection \<open>App: handleAnalyze\<close>

text \<open>
  The state cells of \<^verbatim>\<open>App\<close>. \<^verbatim>\<open>uploadData\<close> holds the data of the upload response
  (\<^verbatim>\<open>UploadResponse\<close> of FileUpload.tsx; its \<^verbatim>\<open>preview_data\<close> and \<^verbatim>\<open>stats\<close>, untyped
  payloads that no handler reads, are left out). The result object is untyped in the
  source and a type parameter here.
\<close>

record UploadResponse =
  success :: bool
  message :: string
  filename :: "string option"
  column_types :: "column_types option"
  error :: "string option"

datatype view = Upload | Analysis | Results

record 'r app_state =
  darkMode :: bool
  uploadData :: "UploadResponse option"
  currentView :: view
  analysisResults :: "'r option"
  isAnalyzing :: bool
  analysisSelection :: "VariableSelection option"

text \<open>
  How the \<^verbatim>\<open>/analyze\<close> request ends: \<open>Responded ok results\<close> is a response with
  \<^verbatim>\<open>data.success\<close> and \<^verbatim>\<open>data.results\<close>; \<open>Rejected detail\<close> is a rejected promise (no
  connection, or a status outside 2xx), with \<^verbatim>\<open>error.response?.data?.detail\<close>.
\<close>

datatype 'r analyze_outcome = Responded bool 'r | Rejected "string option"

text \<open>\<^verbatim>\<open>a || b\<close> on an optional string: the empty string and \<^verbatim>\<open>undefined\<close> are falsy.\<close>

definition orElse :: "string option \<Rightarrow> string \<Rightarrow> string" where
  "orElse a b = (case a of None \<Rightarrow> b | Some x \<Rightarrow> if x = [] then b else x)"

text \<open>
  \<^verbatim>\<open>handleAnalyze\<close> gives the state after its \<^verbatim>\<open>finally\<close> block and the messages passed to
  \<^verbatim>\<open>alert\<close>. With \<^verbatim>\<open>uploadData\<close> null, reading \<^verbatim>\<open>uploadData.filename\<close> throws inside the
  \<^verbatim>\<open>try\<close> before any request is sent, and the \<^verbatim>\<open>catch\<close> block handles it as an error
  without a response.
\<close>

definition handleAnalyze ::
  "VariableSelection \<Rightarrow> 'r analyze_outcome \<Rightarrow> 'r app_state \<Rightarrow> 'r app_state \<times> string list" where
  "handleAnalyze selection outcome s =
     (let s1 = s\<lparr>isAnalyzing := True, analysisSelection := Some selection\<rparr> in
      case uploadData s of
        None \<Rightarrow> (s1\<lparr>isAnalyzing := False\<rparr>, [''Failed to run analysis''])
      | Some _ \<Rightarrow>
          (case outcome of
             Responded ok res \<Rightarrow>
               if ok then (s1\<lparr>analysisResults := Some res, currentView := Results,
                              isAnalyzing := False\<rparr>, [])
               else (s1\<lparr>isAnalyzing := False\<rparr>, [])
           | Rejected detail \<Rightarrow>
               (s1\<lparr>isAnalyzing := False\<rparr>, [orElse detail ''Failed to run analysis''])))"

text \<open>A state of \<^verbatim>\<open>App\<close> in the analysis view, after an upload and before any analysis.\<close>

definition analysing :: "string app_state" where
  "analysing = \<lparr>darkMode = False,
     uploadData = Some \<lparr>success = True, message = ''ok'', filename = Some ''data.csv'',
       column_types = Some [(''score'', ''numeric'')], error = None\<rparr>,
     currentView = Analysis, analysisResults = None, isAnalyzing = False,
     analysisSelection = None\<rparr>"

subsection \<open>FileUpload: processFile and uploadFile\<close>

text \<open>
  A browser \<^verbatim>\<open>File\<close> with its \<^verbatim>\<open>name\<close>, \<^verbatim>\<open>type\<close> and \<^verbatim>\<open>size\<close> (a number of bytes).
  Names are byte strings here and \<^verbatim>\<open>toLowerCase\<close> acts on the letters A to Z.
\<close>

record File =
  file_name :: string
  file_type :: string
  file_size :: nat

record upload_state =
  isDragging :: bool
  selectedFile :: "File option"
  isUploading :: bool
  uploadError :: "string option"

definition acceptedTypes :: "string list" where
  "acceptedTypes = [''.csv'', ''.xlsx'',
     ''application/vnd.openxmlformats-officedocument.spreadsheetml.sheet'', ''text/csv'']"

text \<open>\<^verbatim>\<open>s.split(c)\<close>: the pieces between the separators, one piece for a string without any.\<close>

fun split :: "char \<Rightarrow> string \<Rightarrow> string list" where
  "split c [] = [[]]"
| "split c (x # xs) =
     (if x = c then [] # split c xs
      else (case split c xs of [] \<Rightarrow> [[x]] | w # ws \<Rightarrow> (x # w) # ws))"

definition toLowerCase :: "string \<Rightarrow> string" where
  "toLowerCase str =
     map (\<lambda>ch. let n = (of_char ch :: nat) in if 65 \<le> n \<and> n \<le> 90 then char_of (n + 32) else ch) str"

text \<open>
  The type check of \<^verbatim>\<open>processFile\<close>: the text after the last dot of the name, in lower
  case and with a dot in front, or else the MIME type, is among \<^verbatim>\<open>acceptedTypes\<close>.
  \<^verbatim>\<open>split\<close> never gives an empty array, so \<^verbatim>\<open>pop()\<close> is its last piece.
\<close>

definition acceptedType :: "File \<Rightarrow> bool" where
  "acceptedType f =
     (let fileExtension = toLowerCase (last (split (CHR ''.'') (file_name f)))
      in \<not> ((CHR ''.'' # fileExtension) \<notin> set acceptedTypes \<and> file_type f \<notin> set acceptedTypes))"

text \<open>
  How the \<^verbatim>\<open>/upload\<close> request ends: a response with its data, or a rejected promise with
  \<^verbatim>\<open>error.code\<close>, \<^verbatim>\<open>error.response\<close> (absent when no response arrived) and
  \<^verbatim>\<open>error.message\<close>. An error response has its \<^verbatim>\<open>status\<close> and its \<^verbatim>\<open>data\<close>: \<open>None\<close> for
  a null body, \<open>Some d\<close> for a body whose \<^verbatim>\<open>detail\<close> is \<open>d\<close>. What the component does to
  the outside is a list of effects: the request it posts, the call of \<^verbatim>\<open>onFileUpload\<close>,
  and an exception that leaves \<^verbatim>\<open>uploadFile\<close> uncaught.
\<close>

datatype error_response = ErrorResponse nat "string option option"

datatype upload_outcome =
  UploadResponded UploadResponse
  | UploadRejected "string option" "error_response option" "string option"

datatype effect = PostUpload File | OnFileUpload UploadResponse | UncaughtTypeError

text \<open>\<^verbatim>\<open>error.response?.status\<close> and \<^verbatim>\<open>error.response?.data?.detail\<close>.\<close>

definition responseStatus :: "error_response option \<Rightarrow> nat option" where
  "responseStatus r = (case r of None \<Rightarrow> None | Some (ErrorResponse st _) \<Rightarrow> Some st)"

definition responseDetail :: "error_response option \<Rightarrow> string option" where
  "responseDetail r =
     (case r of None \<Rightarrow> None | Some (ErrorResponse _ None) \<Rightarrow> None
      | Some (ErrorResponse _ (Some d)) \<Rightarrow> d)"

text \<open>
  \<^verbatim>\<open>uploadFile\<close>. In the branch for status 400 the source reads
  \<^verbatim>\<open>error.response.data.detail\<close> without \<^verbatim>\<open>?.\<close>: on a null body that throws inside the
  \<^verbatim>\<open>catch\<close> block, no error message is set, the \<^verbatim>\<open>finally\<close> block still clears
  \<^verbatim>\<open>isUploading\<close>, and the exception leaves the function.
\<close>

definition uploadFile :: "upload_outcome \<Rightarrow> File \<Rightarrow> upload_state \<Rightarrow> upload_state \<times> effect list" where
  "uploadFile outcome f s =
     (let s1 = s\<lparr>isUploading := True, uploadError := None\<rparr> in
      case outcome of
        UploadResponded d \<Rightarrow>
          if success d then (s1\<lparr>isUploading := False\<rparr>, [PostUpload f, OnFileUpload d])
          else (s1\<lparr>uploadError := Some (orElse (error d) ''Upload failed''), isUploading := False\<rparr>,
                [PostUpload f])
      | UploadRejected code response msg \<Rightarrow>
          if code = Some ''ECONNABORTED''
            then (s1\<lparr>uploadError := Some ''Upload timeout. Please try a smaller file.'',
                      isUploading := False\<rparr>, [PostUpload f])
          else if responseStatus response = Some 413
            then (s1\<lparr>uploadError := Some ''File too large. Maximum size is 10MB.'',
                      isUploading := False\<rparr>, [PostUpload f])
          else if responseStatus response = Some 400
            then (case response of
                    Some (ErrorResponse _ (Some detail)) \<Rightarrow>
                      (s1\<lparr>uploadError := Some (orElse detail ''Invalid file format.''),
                          isUploading := False\<rparr>, [PostUpload f])
                  | _ \<Rightarrow> (s1\<lparr>isUploading := False\<rparr>, [PostUpload f, UncaughtTypeError]))
          else (s1\<lparr>uploadError := Some (orElse (responseDetail response) (orElse msg
                       ''Failed to upload file. Please check your connection and try again.'')),
                    isUploading := False\<rparr>, [PostUpload f]))"

definition processFile :: "upload_outcome \<Rightarrow> File \<Rightarrow> upload_state \<Rightarrow> upload_state \<times> effect list" where
  "processFile outcome f s =
     (let s1 = s\<lparr>uploadError := None\<rparr> in
      if \<not> acceptedType f
        then (s1\<lparr>uploadError := Some ''Please upload a CSV or XLSX file only.''\<rparr>, [])
      else if file_size f > 10 * 1024 * 1024
        then (s1\<lparr>uploadError := Some
                ''File size must be less than 10MB. For larger files, please use sample mode.''\<rparr>, [])
      else uploadFile outcome f (s1\<lparr>selectedFile := Some f\<rparr>))"

subsection \<open>The registry\<close>

lemma statisticalTests_ids:
  "map test_id statisticalTests =
     [''independent_t'', ''paired_t'', ''anova'', ''pearson'', ''spearman'', ''chi_square'',
      ''linear_regression'', ''mann_whitney'', ''shapiro_wilk'', ''levene'']"
  by (simp add: statisticalTests_def)

lemma statisticalTests_arities:
  "map (\<lambda>t. variables (requirements t)) statisticalTests = [2, 2, 2, 2, 2, 2, - 1, 2, 1, 2]"
  by (simp add: statisticalTests_def)


subsection \<open>No operation writes the registry\<close>




lemma getAvailableTests_in_registry: "getAvailableTests_in statisticalTests = getAvailableTests"
  by (intro ext) (simp add: getAvailableTests_in_def getAvailableTests_def)

lemma checkboxDisabled_in_registry: "checkboxDisabled_in statisticalTests = checkboxDisabled"
  by (intro ext) (simp add: checkboxDisabled_in_def checkboxDisabled_def)





lemma find_registered:
  "find (\<lambda>t. test_id t = tid) statisticalTests = Some t \<Longrightarrow> t \<in> set statisticalTests \<and> test_id t = tid"
  by (auto simp: find_Some_iff)

lemma registry_arity:
  assumes "t \<in> set statisticalTests"
  shows "variables (requirements t) = 1 \<or> variables (requirements t) = 2 \<or> variables (requirements t) = - 1"
proof -
  from assms have "variables (requirements t) \<in> set (map (\<lambda>t. variables (requirements t)) statisticalTests)"
    by (simp add: image_iff) blast
  then show ?thesis unfolding statisticalTests_arities by auto
qed

lemma find_distinct_key:
  "distinct (map f xs) \<Longrightarrow> t \<in> set xs \<Longrightarrow> find (\<lambda>x. f x = f t) xs = Some t"
  by (induction xs) (auto simp: image_iff)

lemma find_registry_entry:
  "t \<in> set statisticalTests \<Longrightarrow> find (\<lambda>x. test_id x = test_id t) statisticalTests = Some t"
  by (rule find_distinct_key) (simp_all add: statisticalTests_ids)

lemma find_empty_id: "find (\<lambda>t. test_id t = []) statisticalTests = None"
  by (simp add: find_None_iff statisticalTests_def)

lemmas model_defs = statisticalTests_def initial_state_def getAvailableTests_def numericColumns_def
      categoricalColumns_def allColumns_def checkboxDisabled_def belowLimit_def
      handleTestSelect_def handleVariableSelect_def handleRunTest_def

subsection \<open>The selection stays within the arity\<close>

lemma within_arity_initial: "within_arity initial_state"
  by (simp add: within_arity_def initial_state_def find_empty_id)

lemma within_arity_handleTestSelect: "within_arity (handleTestSelect tid s)"
  using registry_arity
  by (fastforce simp: within_arity_def handleTestSelect_def split: option.splits dest: find_registered)

lemma length_filter_less:
  "v \<in> set xs \<Longrightarrow> length (filter (\<lambda>x. x \<noteq> v) xs) < length xs"
  by (induction xs) (auto simp: less_Suc_eq_le)

lemma within_arity_handleVariableSelect:
  assumes "within_arity s"
  shows "within_arity (handleVariableSelect v s)"
proof (cases "find (\<lambda>t. test_id t = selectedTest s) statisticalTests")
  case None
  then show ?thesis using assms by (simp add: handleVariableSelect_def)
next
  case (Some t)
  let ?n = "variables (requirements t)" and ?xs = "selectedVariables s"
  from Some assms have bound: "?n = - 1 \<or> int (length ?xs) \<le> ?n"
    by (simp add: within_arity_def)
  have shrink: "?n = - 1 \<or> int (length (filter (\<lambda>x. x \<noteq> v) ?xs)) \<le> ?n"
  proof -
    have "int (length (filter (\<lambda>x. x \<noteq> v) ?xs)) \<le> int (length ?xs)" by simp
    with bound show ?thesis by linarith
  qed
  from Some bound shrink show ?thesis
    by (auto simp: handleVariableSelect_def within_arity_def belowLimit_def)
qed

lemma within_arity_fold:
  "within_arity s \<Longrightarrow> within_arity (fold handleVariableSelect vs s)"
  by (induction vs arbitrary: s) (simp_all add: within_arity_handleVariableSelect)

lemma selectedTest_handleVariableSelect [simp]:
  "selectedTest (handleVariableSelect v s) = selectedTest s"
  by (simp add: handleVariableSelect_def split: option.splits)

lemma selectedTest_fold [simp]:
  "selectedTest (fold handleVariableSelect vs s) = selectedTest s"
  by (induction vs arbitrary: s) simp_all

lemma arity_one_replaces:
  assumes "find (\<lambda>t. test_id t = selectedTest s) statisticalTests = Some t"
    and "variables (requirements t) = 1"
  shows "selectedVariables (handleVariableSelect v s) = [v]"
  using assms by (simp add: handleVariableSelect_def)

lemma arity_one_fold:
  assumes "find (\<lambda>t. test_id t = selectedTest s) statisticalTests = Some t"
    and "variables (requirements t) = 1" and "vs \<noteq> []"
  shows "selectedVariables (fold handleVariableSelect vs s) = [last vs]"
  using assms
proof (induction vs arbitrary: s rule: rev_induct)
  case Nil
  then show ?case by simp
next
  case (snoc v vs)
  have "find (\<lambda>t. test_id t = selectedTest (fold handleVariableSelect vs s)) statisticalTests = Some t"
    using snoc.prems(1) by simp
  then show ?case using snoc.prems(2) by (simp add: arity_one_replaces)
qed

lemma within_arity_step: "within_arity s \<Longrightarrow> within_arity (fst (step e s))"
  by (cases e) (simp_all add: within_arity_handleTestSelect within_arity_handleVariableSelect)

lemma fst_run_events_Cons:
  "fst (run_events (e # es) s) = fst (run_events es (fst (step e s)))"
  by (cases "step e s"; cases "run_events es (fst (step e s))") simp

lemma within_arity_run_events:
  "within_arity s \<Longrightarrow> within_arity (fst (run_events es s))"
proof (induction es arbitrary: s)
  case Nil
  then show ?case by simp
next
  case (Cons e es)
  from Cons.prems have "within_arity (fst (step e s))" by (rule within_arity_step)
  then have "within_arity (fst (run_events es (fst (step e s))))" by (rule Cons.IH)
  then show ?case by (simp only: fst_run_events_Cons)
qed

text \<open>
  C5. For a registered test of fixed arity \<open>n\<close>, after \<^verbatim>\<open>handleTestSelect\<close> of its id any
  sequence of \<^verbatim>\<open>handleVariableSelect\<close> calls leaves at most \<open>n\<close> selected variables; for
  an arity-1 test each call replaces the selection, which after a non-empty sequence is
  the single variable selected last.
\<close>

theorem selection_never_exceeds_fixed_arity:
  assumes "t \<in> set statisticalTests" and "variables (requirements t) \<noteq> - 1"
  shows "int (length (selectedVariables
            (fold handleVariableSelect vs (handleTestSelect (test_id t) s))))
           \<le> variables (requirements t) \<and>
         (variables (requirements t) = 1 \<and> vs \<noteq> [] \<longrightarrow>
            selectedVariables (fold handleVariableSelect vs (handleTestSelect (test_id t) s))
              = [last vs])"
proof -
  let ?s0 = "handleTestSelect (test_id t) s"
  have sel: "selectedTest ?s0 = test_id t" by (simp add: handleTestSelect_def)
  have f0: "find (\<lambda>x. test_id x = selectedTest ?s0) statisticalTests = Some t"
    using assms(1) by (simp add: sel find_registry_entry)
  then have f: "find (\<lambda>x. test_id x = selectedTest (fold handleVariableSelect vs ?s0))
                  statisticalTests = Some t"
    by simp
  have "within_arity (fold handleVariableSelect vs ?s0)"
    by (rule within_arity_fold) (rule within_arity_handleTestSelect)
  with f assms(2) have bound: "int (length (selectedVariables (fold handleVariableSelect vs ?s0)))
      \<le> variables (requirements t)"
    by (simp add: within_arity_def)
  from f0 have "variables (requirements t) = 1 \<Longrightarrow> vs \<noteq> [] \<Longrightarrow>
      selectedVariables (fold handleVariableSelect vs ?s0) = [last vs]"
    by (rule arity_one_fold)
  with bound show ?thesis by blast
qed

theorem selection_never_exceeds_fixed_arity_witness:
  "statisticalTests ! 8 \<in> set statisticalTests \<and>
   test_id (statisticalTests ! 8) = ''shapiro_wilk'' \<and>
   variables (requirements (statisticalTests ! 8)) = 1 \<and>
   selectedVariables (fold handleVariableSelect [''age'', ''height'']
       (handleTestSelect ''shapiro_wilk'' initial_state)) = [''height'']"
proof -
  have mem: "statisticalTests ! 8 \<in> set statisticalTests"
    by (rule nth_mem) (simp add: statisticalTests_def)
  have ar: "variables (requirements (statisticalTests ! 8)) = 1"
    and tid: "test_id (statisticalTests ! 8) = ''shapiro_wilk''"
    by (simp_all add: statisticalTests_def)
  from ar have ne: "variables (requirements (statisticalTests ! 8)) \<noteq> - 1" by simp
  from selection_never_exceeds_fixed_arity [OF mem ne, of "[''age'', ''height'']" initial_state]
    mem ar tid show ?thesis by simp
qed

subsection \<open>Toggling a variable twice\<close>

lemma toggle_twice_set:
  assumes inv: "within_arity s"
    and found: "find (\<lambda>t. test_id t = selectedTest s) statisticalTests = Some t"
    and arity: "2 \<le> variables (requirements t) \<or> variables (requirements t) = - 1"
  shows "set (selectedVariables (handleVariableSelect v (handleVariableSelect v s)))
           = set (selectedVariables s)"
proof -
  let ?n = "variables (requirements t)" and ?xs = "selectedVariables s"
  let ?s1 = "handleVariableSelect v s"
  from arity have n1: "?n \<noteq> 1" by auto
  from found have found1: "find (\<lambda>t. test_id t = selectedTest ?s1) statisticalTests = Some t"
    by simp
  from inv found have bound: "?n = - 1 \<or> int (length ?xs) \<le> ?n"
    by (simp add: within_arity_def)
  show ?thesis
  proof (cases "v \<in> set ?xs")
    case True
    then have s1: "selectedVariables ?s1 = filter (\<lambda>x. x \<noteq> v) ?xs"
      using found n1 by (simp add: handleVariableSelect_def)
    have "int (length (filter (\<lambda>x. x \<noteq> v) ?xs)) < int (length ?xs)"
      using True by (simp add: length_filter_less)
    with bound have room: "belowLimit (length (filter (\<lambda>x. x \<noteq> v) ?xs)) ?n"
      by (auto simp: belowLimit_def)
    have "selectedVariables (handleVariableSelect v ?s1) = filter (\<lambda>x. x \<noteq> v) ?xs @ [v]"
      using found1 n1 room s1 by (simp add: handleVariableSelect_def)
    with True show ?thesis by auto
  next
    case False
    show ?thesis
    proof (cases "belowLimit (length ?xs) ?n")
      case True
      with False have s1: "selectedVariables ?s1 = ?xs @ [v]"
        using found n1 by (simp add: handleVariableSelect_def)
      have "filter (\<lambda>x. x \<noteq> v) ?xs = ?xs"
        using False by (simp add: filter_id_conv) blast
      then have "selectedVariables (handleVariableSelect v ?s1) = ?xs"
        using found1 n1 s1 by (simp add: handleVariableSelect_def)
      then show ?thesis by simp
    next
      case full: False
      with False have "?s1 = s"
        using found n1 by (simp add: handleVariableSelect_def)
      then show ?thesis by simp
    qed
  qed
qed

text \<open>
  C9. In every state reached from the initial one by the handlers, with a selected test of
  fixed arity at least 2 or of unbounded arity, two calls of \<^verbatim>\<open>handleVariableSelect\<close> in
  succession with the same variable leave the set of selected variables as it was.
\<close>

theorem toggling_twice_keeps_variable_set:
  assumes "s = fst (run_events es initial_state)"
    and "find (\<lambda>t. test_id t = selectedTest s) statisticalTests = Some t"
    and "2 \<le> variables (requirements t) \<or> variables (requirements t) = - 1"
  shows "set (selectedVariables (handleVariableSelect v (handleVariableSelect v s)))
           = set (selectedVariables s)"
proof -
  have "within_arity s"
    unfolding assms(1) by (rule within_arity_run_events) (rule within_arity_initial)
  then show ?thesis using assms(2,3) by (rule toggle_twice_set)
qed

theorem toggling_twice_keeps_variable_set_witness:
  "fst (run_events [TestSelect ''pearson'', VariableSelect ''x'', VariableSelect ''y''] initial_state)
     = \<lparr>selectedTest = ''pearson'', selectedVariables = [''x'', ''y''], groupVariable = []\<rparr>
   \<and> set (selectedVariables (handleVariableSelect ''x'' (handleVariableSelect ''x''
        \<lparr>selectedTest = ''pearson'', selectedVariables = [''x'', ''y''], groupVariable = []\<rparr>)))
     = {''x'', ''y''}"
proof -
  let ?s = "\<lparr>selectedTest = ''pearson'', selectedVariables = [''x'', ''y''], groupVariable = []\<rparr>"
  have run: "fst (run_events [TestSelect ''pearson'', VariableSelect ''x'', VariableSelect ''y''] initial_state) = ?s"
    by (simp add: model_defs)
  have found: "find (\<lambda>t. test_id t = selectedTest ?s) statisticalTests = Some (statisticalTests ! 3)"
    by (simp add: statisticalTests_def)
  have arity: "2 \<le> variables (requirements (statisticalTests ! 3)) \<or>
      variables (requirements (statisticalTests ! 3)) = - 1"
    by (simp add: statisticalTests_def)
  from toggling_twice_keeps_variable_set [OF run [symmetric] found arity, of "''x''"]
  have "set (selectedVariables (handleVariableSelect ''x'' (handleVariableSelect ''x'' ?s)))
      = {''x'', ''y''}"
    by simp
  with run show ?thesis by simp
qed

subsection \<open>The selections handed to onTestSelect\<close>

lemma handleRunTest_within:
  assumes "within_arity s" and "handleRunTest s = Some sel"
  shows "countWithinArity sel"
proof -
  from assms(2) have sel: "testId sel = selectedTest s" "variables_sel sel = selectedVariables s"
    and ne: "selectedVariables s \<noteq> []"
    by (auto simp: handleRunTest_def split: if_splits)
  from ne have "1 \<le> length (selectedVariables s)"
    by (cases "selectedVariables s") simp_all
  with assms(1) ne show ?thesis
    by (auto simp: countWithinArity_def within_arity_def sel split: option.splits)
qed

lemma run_events_within:
  "within_arity s \<Longrightarrow> sel \<in> set (snd (run_events es s)) \<Longrightarrow> countWithinArity sel"
proof (induction es arbitrary: s)
  case Nil
  then show ?case by simp
next
  case (Cons e es)
  obtain s' out where st: "step e s = (s', out)" by (cases "step e s")
  obtain s'' outs where rest: "run_events es s' = (s'', outs)" by (cases "run_events es s'")
  from Cons.prems(1) st have inv': "within_arity s'"
    using within_arity_step [of s e] by simp
  from Cons.prems(2) st rest have "out = Some sel \<or> sel \<in> set outs"
    by (auto split: option.splits)
  then show ?case
  proof
    assume o: "out = Some sel"
    with st have "handleRunTest s = Some sel" by (cases e) auto
    with Cons.prems(1) show ?thesis by (rule handleRunTest_within)
  next
    assume "sel \<in> set outs"
    with rest have "sel \<in> set (snd (run_events es s'))" by simp
    with inv' show ?thesis by (rule Cons.IH)
  qed
qed

text \<open>
  C1, as the code has it. Every selection that \<^verbatim>\<open>handleRunTest\<close> hands to
  \<^verbatim>\<open>onTestSelect\<close>, in a state reached from the initial one by the handlers, names a
  registered test and has at least one variable, and at most as many as the arity of the
  test when that is a fixed integer.
\<close>

theorem emitted_selection_count_within_arity:
  assumes "sel \<in> set (snd (run_events es initial_state))"
  shows "countWithinArity sel"
  using within_arity_initial assms by (rule run_events_within)

theorem emitted_selection_count_within_arity_witness:
  "\<lparr>testId = ''independent_t'', variables_sel = [''score''], groupVariable_sel = None\<rparr>
     \<in> set (snd (run_events [TestSelect ''independent_t'', VariableSelect ''score'', RunTest] initial_state))
   \<and> countWithinArity \<lparr>testId = ''independent_t'', variables_sel = [''score''], groupVariable_sel = None\<rparr>"
proof -
  have mem: "\<lparr>testId = ''independent_t'', variables_sel = [''score''], groupVariable_sel = None\<rparr>
     \<in> set (snd (run_events [TestSelect ''independent_t'', VariableSelect ''score'', RunTest] initial_state))"
    by (simp add: model_defs)
  from emitted_selection_count_within_arity [OF mem] mem show ?thesis by simp
qed

text \<open>
  C1, as stated, fails. With a numeric and a categorical column the page offers the
  independent t-test (arity 2), then the checkbox of a column, then the run button: the
  selection emitted has one variable. With a numeric column the same happens for linear
  regression (unbounded arity): one variable, not two.
\<close>

theorem emitted_selection_count_counterexample:
  "ui_run [(''score'', ''numeric''), (''team'', ''categorical'')]
      [TestSelect ''independent_t'', VariableSelect ''score'', RunTest] initial_state
     = Some (\<lparr>selectedTest = ''independent_t'', selectedVariables = [''score''], groupVariable = []\<rparr>,
             [\<lparr>testId = ''independent_t'', variables_sel = [''score''], groupVariable_sel = None\<rparr>])
   \<and> \<not> countMatchesArity \<lparr>testId = ''independent_t'', variables_sel = [''score''], groupVariable_sel = None\<rparr>
   \<and> ui_run [(''score'', ''numeric'')]
      [TestSelect ''linear_regression'', VariableSelect ''score'', RunTest] initial_state
     = Some (\<lparr>selectedTest = ''linear_regression'', selectedVariables = [''score''], groupVariable = []\<rparr>,
             [\<lparr>testId = ''linear_regression'', variables_sel = [''score''], groupVariable_sel = None\<rparr>])
   \<and> \<not> countMatchesArity \<lparr>testId = ''linear_regression'', variables_sel = [''score''], groupVariable_sel = None\<rparr>"
  by (simp add: statisticalTests_def initial_state_def getAvailableTests_def numericColumns_def
      categoricalColumns_def allColumns_def checkboxDisabled_def belowLimit_def
      handleTestSelect_def handleVariableSelect_def handleRunTest_def countMatchesArity_def)

subsection \<open>The selected test is a registered one\<close>

lemma getAvailableTests_subset: "set (getAvailableTests ct) \<subseteq> set statisticalTests"
  by (simp add: getAvailableTests_def)

lemma offered_step_registered:
  assumes "registeredOrEmpty (selectedTest s)" and "offered ct s e"
  shows "registeredOrEmpty (selectedTest (fst (step e s)))"
proof (cases e)
  case (TestSelect tid)
  with assms(2) have "tid \<in> test_id ` set statisticalTests"
    using getAvailableTests_subset [of ct] by auto
  with TestSelect show ?thesis by (simp add: registeredOrEmpty_def handleTestSelect_def)
next
  case (VariableSelect v)
  with assms(1) show ?thesis by simp
next
  case RunTest
  with assms(1) show ?thesis by simp
qed

lemma step_emits_selected_test:
  assumes "step e s = (s', Some sel)"
  shows "testId sel = selectedTest s \<and> selectedTest s \<noteq> []"
  using assms by (cases e) (auto simp: handleRunTest_def split: if_splits)

lemma ui_run_registered:
  assumes "registeredOrEmpty (selectedTest s)" and "ui_run ct es s = Some (s', outs)"
  shows "registeredOrEmpty (selectedTest s') \<and>
         (\<forall>sel \<in> set outs. testId sel \<in> set (map test_id statisticalTests))"
  using assms
proof (induction es arbitrary: s outs)
  case Nil
  then show ?case by simp
next
  case (Cons e es)
  from Cons.prems(2) have off: "offered ct s e" by (simp split: if_splits)
  obtain s1 out where st: "step e s = (s1, out)" by (cases "step e s")
  from Cons.prems(2) off st obtain outs1
    where rest: "ui_run ct es s1 = Some (s', outs1)"
      and outs: "outs = (case out of None \<Rightarrow> [] | Some sel \<Rightarrow> [sel]) @ outs1"
    by (auto split: option.splits)
  from Cons.prems(1) off st have "registeredOrEmpty (selectedTest s1)"
    using offered_step_registered [of s ct e] by simp
  from Cons.IH [OF this rest]
  have ih: "registeredOrEmpty (selectedTest s')"
    "\<forall>sel \<in> set outs1. testId sel \<in> set (map test_id statisticalTests)"
    by simp_all
  have "testId sel \<in> set (map test_id statisticalTests)" if "out = Some sel" for sel
  proof -
    from st that have "testId sel = selectedTest s \<and> selectedTest s \<noteq> []"
      by (simp add: step_emits_selected_test)
    with Cons.prems(1) show ?thesis by (simp add: registeredOrEmpty_def)
  qed
  with ih outs show ?case by (auto split: option.splits)
qed

lemma registeredOrEmpty_initial: "registeredOrEmpty (selectedTest initial_state)"
  by (simp add: registeredOrEmpty_def initial_state_def)

text \<open>
  C10. In every state the page can reach from the initial one, \<^verbatim>\<open>selectedTest\<close> is the
  empty string or the id of a registered test; every selection handed to
  \<^verbatim>\<open>onTestSelect\<close> on the way carries a registered id; and \<^verbatim>\<open>handleVariableSelect\<close>
  changes nothing in a state whose test id is not found in the registry.
\<close>

theorem selected_test_always_registered:
  assumes "ui_run ct es initial_state = Some (s, outs)"
  shows "(selectedTest s = [] \<or> selectedTest s \<in> set (map test_id statisticalTests)) \<and>
         (\<forall>sel \<in> set outs. testId sel \<in> set (map test_id statisticalTests)) \<and>
         (\<forall>s' v. find (\<lambda>t. test_id t = selectedTest s') statisticalTests = None
             \<longrightarrow> handleVariableSelect v s' = s')"
proof -
  from ui_run_registered [OF registeredOrEmpty_initial assms]
  have "selectedTest s = [] \<or> selectedTest s \<in> set (map test_id statisticalTests)"
    and "\<forall>sel \<in> set outs. testId sel \<in> set (map test_id statisticalTests)"
    by (simp_all add: registeredOrEmpty_def)
  moreover have "\<forall>s' v. find (\<lambda>t. test_id t = selectedTest s') statisticalTests = None
      \<longrightarrow> handleVariableSelect v s' = s'"
    by (simp add: handleVariableSelect_def)
  ultimately show ?thesis by blast
qed

theorem selected_test_always_registered_witness:
  "ui_run [(''score'', ''numeric''), (''team'', ''categorical'')]
      [TestSelect ''anova'', VariableSelect ''score'', VariableSelect ''team'', RunTest] initial_state
     = Some (\<lparr>selectedTest = ''anova'', selectedVariables = [''score'', ''team''], groupVariable = []\<rparr>,
             [\<lparr>testId = ''anova'', variables_sel = [''score'', ''team''], groupVariable_sel = None\<rparr>])
   \<and> ''anova'' \<in> set (map test_id statisticalTests)
   \<and> find (\<lambda>t. test_id t = selectedTest initial_state) statisticalTests = None
   \<and> handleVariableSelect ''score'' initial_state = initial_state"
proof -
  have run: "ui_run [(''score'', ''numeric''), (''team'', ''categorical'')]
      [TestSelect ''anova'', VariableSelect ''score'', VariableSelect ''team'', RunTest] initial_state
     = Some (\<lparr>selectedTest = ''anova'', selectedVariables = [''score'', ''team''], groupVariable = []\<rparr>,
             [\<lparr>testId = ''anova'', variables_sel = [''score'', ''team''], groupVariable_sel = None\<rparr>])"
    by (simp add: model_defs)
  have none: "find (\<lambda>t. test_id t = selectedTest initial_state) statisticalTests = None"
    by (simp add: initial_state_def find_empty_id)
  from selected_test_always_registered [OF run] none run show ?thesis by simp
qed

subsection \<open>The tests on offer\<close>

lemma has_numeric: "(numericColumns ct = []) = (\<forall>c \<in> set ct. snd c \<noteq> ''numeric'')"
  by (simp add: numericColumns_def filter_empty_conv case_prod_unfold)

lemma has_categorical: "(categoricalColumns ct = []) = (\<forall>c \<in> set ct. snd c \<noteq> ''categorical'')"
  by (simp add: categoricalColumns_def filter_empty_conv case_prod_unfold)

text \<open>
  C7. \<^verbatim>\<open>getAvailableTests\<close> returns exactly the registry tests \<open>t\<close> for which a numeric
  column exists if \<open>t\<close> asks for a numeric variable and a categorical column exists if
  \<open>t\<close> asks for a categorical one, in the order of the registry.
\<close>

theorem getAvailableTests_spec:
  "getAvailableTests ct = filter (availableSpec ct) statisticalTests \<and>
   subseq (getAvailableTests ct) statisticalTests"
proof -
  have "getAvailableTests ct = filter (availableSpec ct) statisticalTests"
    unfolding getAvailableTests_def
    by (rule filter_cong [OF refl]) (auto simp: availableSpec_def Let_def has_numeric has_categorical)
  moreover have "subseq (getAvailableTests ct) statisticalTests"
    by (simp add: getAvailableTests_def)
  ultimately show ?thesis by simp
qed

theorem getAvailableTests_spec_witness:
  "map test_id (filter (availableSpec [(''score'', ''numeric''), (''day'', ''datetime'')]) statisticalTests)
     = [''paired_t'', ''pearson'', ''spearman'', ''linear_regression'', ''shapiro_wilk'']
   \<and> availableSpec [(''score'', ''numeric''), (''day'', ''datetime'')] (statisticalTests ! 8)
   \<and> \<not> availableSpec [(''score'', ''numeric''), (''day'', ''datetime'')] (statisticalTests ! 0)"
proof -
  have "map test_id (getAvailableTests [(''score'', ''numeric''), (''day'', ''datetime'')])
     = [''paired_t'', ''pearson'', ''spearman'', ''linear_regression'', ''shapiro_wilk'']"
    by (simp add: getAvailableTests_def numericColumns_def categoricalColumns_def statisticalTests_def)
  moreover have "availableSpec [(''score'', ''numeric''), (''day'', ''datetime'')] (statisticalTests ! 8)"
    "\<not> availableSpec [(''score'', ''numeric''), (''day'', ''datetime'')] (statisticalTests ! 0)"
    by (simp_all add: availableSpec_def statisticalTests_def)
  ultimately show ?thesis
    using getAvailableTests_spec [of "[(''score'', ''numeric''), (''day'', ''datetime'')]"] by simp
qed

subsection \<open>Rendering the result of a registered test\<close>

lemma renderResults_known: "renderResults tag \<noteq> UnknownTestType \<Longrightarrow> tag \<in> set renderedTags"
  by (auto simp: renderResults_def renderedTags_def split: if_splits)

text \<open>
  C2. The switch of \<^verbatim>\<open>renderResults\<close> has eight \<^verbatim>\<open>case\<close> labels and the registry ten
  tests: whatever tag each test's result carries, as long as different tests carry
  different tags, the result of some registered test falls through to
  \<^verbatim>\<open>Unknown test type\<close>. The labels cover the two t-tests, ANOVA, the two correlations,
  chi-square, Shapiro-Wilk and Levene; linear regression and Mann-Whitney have none.
\<close>

theorem some_registered_test_renders_unknown:
  assumes "inj_on tag (set (map test_id statisticalTests))"
  shows "\<exists>t \<in> set statisticalTests. renderResults (tag (test_id t)) = UnknownTestType"
proof (rule ccontr)
  assume "\<not> ?thesis"
  then have "\<forall>t \<in> set statisticalTests. tag (test_id t) \<in> set renderedTags"
    using renderResults_known by blast
  then have sub: "tag ` set (map test_id statisticalTests) \<subseteq> set renderedTags" by auto
  have "card (tag ` set (map test_id statisticalTests)) = card (set (map test_id statisticalTests))"
    using assms by (rule card_image)
  also have "\<dots> = 10"
    by (simp add: statisticalTests_ids)
  finally have ten: "card (tag ` set (map test_id statisticalTests)) = 10" .
  have "card (set renderedTags) \<le> length renderedTags" by (rule card_length)
  then have "card (set renderedTags) \<le> 8" by (simp add: renderedTags_def)
  moreover have "card (tag ` set (map test_id statisticalTests)) \<le> card (set renderedTags)"
    using sub by (simp add: card_mono)
  ultimately show False using ten by simp
qed

theorem some_registered_test_renders_unknown_witness:
  "inj_on (\<lambda>tid. tid @ ''_test'') (set (map test_id statisticalTests)) \<and>
   renderResults (''independent_t'' @ ''_test'') = IndependentT \<and>
   renderResults (''linear_regression'' @ ''_test'') = UnknownTestType \<and>
   renderResults (''mann_whitney'' @ ''_test'') = UnknownTestType \<and>
   (\<exists>t \<in> set statisticalTests. renderResults (test_id t @ ''_test'') = UnknownTestType)"
proof -
  have inj: "inj_on (\<lambda>tid. tid @ ''_test'') (set (map test_id statisticalTests))"
    by (rule inj_onI) simp
  from some_registered_test_renders_unknown [OF inj] inj show ?thesis
    by (simp add: renderResults_def)
qed

subsection \<open>A failed analysis leaves results and view alone\<close>

text \<open>
  C3. When the \<^verbatim>\<open>/analyze\<close> request is rejected or its response does not report success,
  \<^verbatim>\<open>handleAnalyze\<close> leaves \<^verbatim>\<open>analysisResults\<close> and \<^verbatim>\<open>currentView\<close> as they were; and
  whenever \<^verbatim>\<open>handleAnalyze\<close> changes \<^verbatim>\<open>analysisResults\<close>, the new value is the
  \<^verbatim>\<open>results\<close> of a response that reported success.
\<close>

theorem handleAnalyze_failure_keeps_results:
  fixes s :: "'r app_state"
  shows "(outcome = Rejected detail \<or> outcome = Responded False res \<longrightarrow>
            analysisResults (fst (handleAnalyze sel outcome s)) = analysisResults s \<and>
            currentView (fst (handleAnalyze sel outcome s)) = currentView s) \<and>
         (analysisResults (fst (handleAnalyze sel outcome s)) \<noteq> analysisResults s \<longrightarrow>
            (\<exists>r. outcome = Responded True r \<and>
                 analysisResults (fst (handleAnalyze sel outcome s)) = Some r))"
  by (cases outcome) (auto simp: handleAnalyze_def Let_def split: option.splits)

theorem handleAnalyze_failure_keeps_results_witness:
  "analysisResults (fst (handleAnalyze
       \<lparr>testId = ''shapiro_wilk'', variables_sel = [''score''], groupVariable_sel = None\<rparr>
       (Rejected (Some ''Column not found'')) analysing)) = None \<and>
   currentView (fst (handleAnalyze
       \<lparr>testId = ''shapiro_wilk'', variables_sel = [''score''], groupVariable_sel = None\<rparr>
       (Rejected (Some ''Column not found'')) analysing)) = Analysis \<and>
   analysisResults (fst (handleAnalyze
       \<lparr>testId = ''shapiro_wilk'', variables_sel = [''score''], groupVariable_sel = None\<rparr>
       (Responded True ''W = 0.97'') analysing)) = Some ''W = 0.97'' \<and>
   analysisResults (fst (handleAnalyze
       \<lparr>testId = ''shapiro_wilk'', variables_sel = [''score''], groupVariable_sel = None\<rparr>
       (Responded True ''W = 0.97'') analysing)) \<noteq> analysisResults analysing"
proof -
  let ?sel = "\<lparr>testId = ''shapiro_wilk'', variables_sel = [''score''], groupVariable_sel = None\<rparr>"
  have changed: "analysisResults (fst (handleAnalyze ?sel (Responded True ''W = 0.97'') analysing))
      \<noteq> analysisResults analysing"
    by (simp add: handleAnalyze_def analysing_def)
  have before: "analysisResults analysing = None" "currentView analysing = Analysis"
    by (simp_all add: analysing_def)
  from handleAnalyze_failure_keeps_results
         [of "Rejected (Some ''Column not found'')" "Some ''Column not found''" "[]" ?sel analysing]
       handleAnalyze_failure_keeps_results
         [of "Responded True ''W = 0.97''" None "[]" ?sel analysing]
       changed before
  show ?thesis by auto
qed

subsection \<open>The size limit of an upload\<close>

lemma uploadFile_posts: "PostUpload f \<in> set (snd (uploadFile outcome f s))"
  by (cases outcome)
    (simp_all add: uploadFile_def Let_def split: option.splits error_response.splits)

lemma uploadFile_selectedFile: "selectedFile (fst (uploadFile outcome f s)) = selectedFile s"
  by (cases outcome)
    (simp_all add: uploadFile_def Let_def split: option.splits error_response.splits)

text \<open>
  C4. For a file of more than 10 * 1024 * 1024 bytes \<^verbatim>\<open>processFile\<close> sets an upload error
  and returns without calling \<^verbatim>\<open>uploadFile\<close>: no request is posted and the selected file
  stays as it was. A file of an accepted type of at most that size is selected and its
  upload request is posted.
\<close>

theorem processFile_size_limit:
  "(file_size f > 10 * 1024 * 1024 \<longrightarrow>
      uploadError (fst (processFile outcome f s)) \<noteq> None \<and>
      snd (processFile outcome f s) = [] \<and>
      selectedFile (fst (processFile outcome f s)) = selectedFile s) \<and>
   (acceptedType f \<and> file_size f \<le> 10 * 1024 * 1024 \<longrightarrow>
      PostUpload f \<in> set (snd (processFile outcome f s)) \<and>
      selectedFile (fst (processFile outcome f s)) = Some f)"
  by (simp add: processFile_def Let_def uploadFile_posts uploadFile_selectedFile)

theorem processFile_size_limit_witness:
  "10 * 1024 * 1024 < file_size \<lparr>file_name = ''big.csv'', file_type = ''text/csv'', file_size = 10485761\<rparr> \<and>
   processFile (UploadResponded \<lparr>success = True, message = ''ok'', filename = Some ''big.csv'',
         column_types = None, error = None\<rparr>)
       \<lparr>file_name = ''big.csv'', file_type = ''text/csv'', file_size = 10485761\<rparr>
       \<lparr>isDragging = False, selectedFile = None, isUploading = False, uploadError = None\<rparr>
     = (\<lparr>isDragging = False, selectedFile = None, isUploading = False,
          uploadError = Some ''File size must be less than 10MB. For larger files, please use sample mode.''\<rparr>, []) \<and>
   acceptedType \<lparr>file_name = ''data.CSV'', file_type = [], file_size = 10485760\<rparr> \<and>
   PostUpload \<lparr>file_name = ''data.CSV'', file_type = [], file_size = 10485760\<rparr>
     \<in> set (snd (processFile (UploadRejected None (Some (ErrorResponse 413 None)) (Some ''Request failed''))
                 \<lparr>file_name = ''data.CSV'', file_type = [], file_size = 10485760\<rparr>
                 \<lparr>isDragging = False, selectedFile = None, isUploading = False, uploadError = None\<rparr>))"
proof -
  have acc: "acceptedType \<lparr>file_name = ''data.CSV'', file_type = [], file_size = 10485760\<rparr>"
    by (simp add: acceptedType_def acceptedTypes_def toLowerCase_def char_of_eq_iff)
  have acc': "acceptedType \<lparr>file_name = ''big.csv'', file_type = ''text/csv'', file_size = 10485761\<rparr>"
    by (simp add: acceptedType_def acceptedTypes_def toLowerCase_def)
  have big: "processFile (UploadResponded \<lparr>success = True, message = ''ok'', filename = Some ''big.csv'',
         column_types = None, error = None\<rparr>)
       \<lparr>file_name = ''big.csv'', file_type = ''text/csv'', file_size = 10485761\<rparr>
       \<lparr>isDragging = False, selectedFile = None, isUploading = False, uploadError = None\<rparr>
     = (\<lparr>isDragging = False, selectedFile = None, isUploading = False,
          uploadError = Some ''File size must be less than 10MB. For larger files, please use sample mode.''\<rparr>, [])"
    using acc' by (simp add: processFile_def)
  from processFile_size_limit
         [of "\<lparr>file_name = ''data.CSV'', file_type = [], file_size = 10485760\<rparr>"
             "UploadRejected None (Some (ErrorResponse 413 None)) (Some ''Request failed'')"
             "\<lparr>isDragging = False, selectedFile = None, isUploading = False, uploadError = None\<rparr>"]
       acc big
  show ?thesis by simp
qed

end
